theory Spec2Isabelle
  imports Main
begin

section \<open>The slot service\<close>

text \<open>
  \<^verbatim>\<open>SlotService\<close> (slot.service.ts) is the only object of the application that holds
  data: a private array of slot names, initialised to three names. A slot has no other
  field than its name, and its id is its index in the array.
\<close>

record SlotService =
  slots :: "string list"

definition initial :: SlotService where
  "initial = \<lparr>slots = [''Slot 1'', ''Slot 2'', ''Slot 3'']\<rparr>"

definition getAllSlots :: "SlotService \<Rightarrow> string list" where
  "getAllSlots svc = slots svc"

text \<open>
  A TypeScript \<^verbatim>\<open>number\<close> used as an array subscript names an element only when it is
  an integer from 0 up to the length; every other number (negative, fractional, NaN,
  infinite) is a property the array does not have, and the read gives \<^verbatim>\<open>undefined\<close>
  (here \<open>None\<close>).
\<close>

datatype number = Integral int | NonIntegral

fun element_at :: "string list \<Rightarrow> number \<Rightarrow> string option" where
  "element_at xs (Integral i) =
     (if 0 \<le> i \<and> i < int (length xs) then Some (xs ! nat i) else None)"
| "element_at xs NonIntegral = None"

text \<open>
  \<^verbatim>\<open>return this.slots[id] || 'Slot not found'\<close>: the right operand is taken when the
  left one is falsy, which for this array is \<^verbatim>\<open>undefined\<close> or the empty string.
\<close>

definition getSlotById :: "number \<Rightarrow> SlotService \<Rightarrow> string" where
  "getSlotById ident svc =
     (case element_at (slots svc) ident of
        None \<Rightarrow> ''Slot not found''
      | Some v \<Rightarrow> if v = [] then ''Slot not found'' else v)"

text \<open>\<^verbatim>\<open>this.slots.push(name); return name\<close>, with the updated service returned too.\<close>

definition addSlot :: "string \<Rightarrow> SlotService \<Rightarrow> string \<times> SlotService" where
  "addSlot name svc = (name, svc\<lparr>slots := slots svc @ [name]\<rparr>)"

section \<open>The controllers\<close>

subsection \<open>BookingController (booking.controller.ts)\<close>

text \<open>The five handlers take no parameter and hold no field.\<close>

definition getBookings :: string where
  "getBookings = ''This action returns all bookings''"

definition getMyBookings :: string where
  "getMyBookings = ''This action returns my bookings''"

definition createBooking :: string where
  "createBooking = ''This action creates a new booking''"

definition confirmBooking :: string where
  "confirmBooking = ''This action confirms a booking''"

definition cancelBooking :: string where
  "cancelBooking = ''This action cancels a booking''"

subsection \<open>QueueController (queue.controller.ts)\<close>

text \<open>
  Each handler receives the \<^verbatim>\<open>:id\<close> path parameter and the raw request
  (\<^verbatim>\<open>req: any\<close>, here a value of any type \<open>'r\<close>) and uses neither.
\<close>

definition joinQueue :: "string \<Rightarrow> 'r \<Rightarrow> string" where
  "joinQueue slotId req = ''''"

definition leaveQueue :: "string \<Rightarrow> 'r \<Rightarrow> string" where
  "leaveQueue slotId req = ''''"

definition getQueuePosition :: "string \<Rightarrow> 'r \<Rightarrow> string" where
  "getQueuePosition slotId req = ''''"

subsection \<open>SlotController (slot.controller.ts)\<close>

text \<open>
  The controller holds the injected \<^verbatim>\<open>SlotService\<close>. Only \<^verbatim>\<open>getSlots\<close> calls it.
\<close>

definition getSlots :: "SlotService \<Rightarrow> string list" where
  "getSlots svc = getAllSlots svc"

definition createSlot :: string where
  "createSlot = ''This action creates a new slot''"

definition updateSlot :: string where
  "updateSlot = ''This action updates a slot''"

definition deleteSlot :: string where
  "deleteSlot = ''This action deletes a slot''"

section \<open>Routing\<close>

text \<open>
  The route decorators of the three controllers. A request carries the \<^verbatim>\<open>:id\<close>
  path parameter where its route has one, and the rest of the HTTP request (caller,
  body, time of arrival) as a value of type \<open>'r\<close>. A handler returns a string or,
  for \<^verbatim>\<open>getSlots\<close>, the array of names; no handler throws. The service is passed
  through every call, so that what a handler does to it is part of its result.
\<close>

datatype 'r request =
    GetBookings 'r
  | GetMyBookings 'r
  | CreateBooking 'r
  | ConfirmBooking string 'r
  | CancelBooking string 'r
  | JoinQueue string 'r
  | LeaveQueue string 'r
  | GetQueuePosition string 'r
  | GetSlots 'r
  | CreateSlot 'r
  | UpdateSlot string 'r
  | DeleteSlot string 'r

datatype response = Text string | Names "string list"

fun handle :: "'r request \<Rightarrow> SlotService \<Rightarrow> response \<times> SlotService" where
  "handle (GetBookings r) svc = (Text getBookings, svc)"
| "handle (GetMyBookings r) svc = (Text getMyBookings, svc)"
| "handle (CreateBooking r) svc = (Text createBooking, svc)"
| "handle (ConfirmBooking b r) svc = (Text confirmBooking, svc)"
| "handle (CancelBooking b r) svc = (Text cancelBooking, svc)"
| "handle (JoinQueue slotId r) svc = (Text (joinQueue slotId r), svc)"
| "handle (LeaveQueue slotId r) svc = (Text (leaveQueue slotId r), svc)"
| "handle (GetQueuePosition slotId r) svc = (Text (getQueuePosition slotId r), svc)"
| "handle (GetSlots r) svc = (Names (getSlots svc), svc)"
| "handle (CreateSlot r) svc = (Text createSlot, svc)"
| "handle (UpdateSlot i r) svc = (Text updateSlot, svc)"
| "handle (DeleteSlot i r) svc = (Text deleteSlot, svc)"

text \<open>Serving a sequence of requests, one after the other.\<close>

fun run :: "'r request list \<Rightarrow> SlotService \<Rightarrow> response list \<times> SlotService" where
  "run [] svc = ([], svc)"
| "run (q # qs) svc =
     (case handle q svc of (a, svc') \<Rightarrow>
        (case run qs svc' of (as, svc'') \<Rightarrow> (a # as, svc'')))"

section \<open>The slot list\<close>

text \<open>
  C8. For every name, \<open>addSlot name\<close> returns the name, and afterwards \<open>getAllSlots\<close>
  returns the previous list with the name appended at the end: the list is longer by
  exactly one and every slot stored before is unchanged at its index.
\<close>

theorem addSlot_appends_name:
  "fst (addSlot name svc) = name
   \<and> getAllSlots (snd (addSlot name svc)) = getAllSlots svc @ [name]
   \<and> length (getAllSlots (snd (addSlot name svc))) = length (getAllSlots svc) + 1
   \<and> (\<forall>i < length (getAllSlots svc).
        getAllSlots (snd (addSlot name svc)) ! i = getAllSlots svc ! i)"
  by (simp add: addSlot_def getAllSlots_def nth_append)

theorem addSlot_appends_name_witness:
  "fst (addSlot ''Slot 4'' initial) = ''Slot 4''
   \<and> getAllSlots (snd (addSlot ''Slot 4'' initial)) = [''Slot 1'', ''Slot 2'', ''Slot 3'', ''Slot 4'']
   \<and> (1::nat) < length (getAllSlots initial)
   \<and> getAllSlots (snd (addSlot ''Slot 4'' initial)) ! 1 = ''Slot 2''"
  using addSlot_appends_name [of "''Slot 4''" initial]
  by (simp add: initial_def getAllSlots_def)


section \<open>Requests never change the service\<close>

lemma handle_keeps_service: "snd (handle q svc) = svc"
  by (cases q) simp_all

lemma handle_service: "handle q svc = (a, svc') \<Longrightarrow> svc' = svc"
  using handle_keeps_service [of q svc] by simp

lemma run_keeps_service: "snd (run qs svc) = svc"
proof (induction qs arbitrary: svc)
  case Nil
  show ?case by simp
next
  case (Cons q qs)
  obtain a svc' where h: "handle q svc = (a, svc')"
    by (cases "handle q svc")
  then have "svc' = svc"
    by (rule handle_service)
  obtain as svc'' where r: "run qs svc = (as, svc'')"
    by (cases "run qs svc")
  with Cons.IH [of svc] have "svc'' = svc"
    by simp
  with h \<open>svc' = svc\<close> r show ?case
    by simp
qed

lemma run_Cons: "run (q # qs) svc = (fst (handle q svc) # fst (run qs svc), svc)"
proof -
  obtain a svc' where h: "handle q svc = (a, svc')"
    by (cases "handle q svc")
  then have e: "svc' = svc"
    by (rule handle_service)
  obtain as svc'' where r: "run qs svc = (as, svc'')"
    by (cases "run qs svc")
  with run_keeps_service [of qs svc] have "svc'' = svc"
    by simp
  with h e r show ?thesis
    by simp
qed

lemma run_append: "run (qs @ qs') svc = (fst (run qs svc) @ fst (run qs' svc), svc)"
proof (induction qs)
  case Nil
  have "run qs' svc = (fst (run qs' svc), snd (run qs' svc))"
    by simp
  then show ?case
    by (simp add: run_keeps_service)
next
  case (Cons q qs)
  then show ?case
    by (simp only: append_Cons run_Cons fst_conv)
qed


section \<open>Slot lookup\<close>

text \<open>What the lookup does give: the stored name when it is not empty, and the
  not-found string for a number that is no index of the array.\<close>

lemma getSlotById_stored:
  "0 \<le> i \<Longrightarrow> i < int (length (slots svc)) \<Longrightarrow> slots svc ! nat i \<noteq> [] \<Longrightarrow>
   getSlotById (Integral i) svc = slots svc ! nat i"
  by (simp add: getSlotById_def)

lemma getSlotById_absent:
  "element_at (slots svc) ident = None \<Longrightarrow> getSlotById ident svc = ''Slot not found''"
  by (simp add: getSlotById_def)

text \<open>
  C6. The lookup returns the slot exactly when a slot with the given id exists, and
  the not-found answer exactly when none does. The code misses one case: after
  \<open>addSlot\<close> of the empty name onto the initial list, index 3 holds a slot, and the
  lookup at 3 answers that the slot is not found.
\<close>

theorem getSlotById_empty_name_reported_missing:
  "getAllSlots (snd (addSlot [] initial)) = [''Slot 1'', ''Slot 2'', ''Slot 3'', []]
   \<and> element_at (slots (snd (addSlot [] initial))) (Integral 3) = Some []
   \<and> getSlotById (Integral 3) (snd (addSlot [] initial)) = ''Slot not found''"
  by (simp add: addSlot_def initial_def getAllSlots_def getSlotById_def)

section \<open>The admin slot endpoints\<close>

text \<open>
  C9. \<open>createSlot\<close>, \<open>updateSlot\<close> and \<open>deleteSlot\<close> each return a fixed string for
  every request and leave the slot list of the service unchanged: none of them calls
  a mutation of the registry, and a listing served afterwards shows the same slots.
\<close>

theorem admin_slot_endpoints_change_nothing:
  "handle (CreateSlot r) svc = (Text ''This action creates a new slot'', svc)
   \<and> handle (UpdateSlot i r) svc = (Text ''This action updates a slot'', svc)
   \<and> handle (DeleteSlot i r) svc = (Text ''This action deletes a slot'', svc)
   \<and> run [CreateSlot r, UpdateSlot i r, DeleteSlot i r, GetSlots r] svc =
       ([Text ''This action creates a new slot'', Text ''This action updates a slot'',
         Text ''This action deletes a slot'', Names (getAllSlots svc)], svc)"
  by (simp add: createSlot_def updateSlot_def deleteSlot_def getSlots_def)

section \<open>The queue endpoints\<close>

text \<open>
  C10. \<open>joinQueue\<close>, \<open>leaveQueue\<close> and \<open>getQueuePosition\<close> each return the empty
  string for every slot id and every request, so two calls with different inputs give
  the same result, and serving them changes no state.
\<close>

theorem queue_endpoints_return_empty_string:
  "joinQueue slotId req = [] \<and> leaveQueue slotId req = [] \<and> getQueuePosition slotId req = []
   \<and> joinQueue slotId req = joinQueue slotId' req'
   \<and> leaveQueue slotId req = leaveQueue slotId' req'
   \<and> getQueuePosition slotId req = getQueuePosition slotId' req'
   \<and> handle (JoinQueue slotId req) svc = (Text [], svc)
   \<and> handle (LeaveQueue slotId req) svc = (Text [], svc)
   \<and> handle (GetQueuePosition slotId req) svc = (Text [], svc)"
  by (simp add: joinQueue_def leaveQueue_def getQueuePosition_def)


section \<open>The booking endpoints\<close>

text \<open>
  The application keeps no booking record: no status, no expiry time, no capacity and
  no hold. In the requests below the payload is the caller together with the slot asked
  for, or with the time of arrival in seconds.
\<close>

text \<open>
  C2, as stated: a confirm or cancel call on a booking in a terminal state is rejected
  with an InvalidTransition error. It fails on the code: a booking that is reserved,
  confirmed and cancelled is cancelled once more, and the second cancel gets the very
  answer of the first, the acknowledgement of a cancellation.
\<close>

theorem cancel_twice_accepted_twice:
  "run [CreateBooking (''alice'', ''Slot 1''), ConfirmBooking ''1'' (''alice'', ''Slot 1''),
        CancelBooking ''1'' (''alice'', ''Slot 1''), CancelBooking ''1'' (''alice'', ''Slot 1'')] initial =
     ([Text ''This action creates a new booking'', Text ''This action confirms a booking'',
       Text ''This action cancels a booking'', Text ''This action cancels a booking''], initial)"
  by (simp add: createBooking_def confirmBooking_def cancelBooking_def)

text \<open>
  C2, amended: after any sequence of requests, a confirm call and a cancel call, for
  any booking id and any caller, are answered with the fixed acknowledgement of the
  endpoint and leave the state unchanged; no call is rejected.
\<close>

theorem confirm_and_cancel_never_rejected:
  "run (qs @ [ConfirmBooking b r]) svc =
     (fst (run qs svc) @ [Text ''This action confirms a booking''], svc)
   \<and> run (qs @ [CancelBooking b r]) svc =
     (fst (run qs svc) @ [Text ''This action cancels a booking''], svc)"
proof -
  have confirm: "run [ConfirmBooking b r] svc = ([Text ''This action confirms a booking''], svc)"
    by (simp add: confirmBooking_def)
  have cancel: "run [CancelBooking b r] svc = ([Text ''This action cancels a booking''], svc)"
    by (simp add: cancelBooking_def)
  from confirm cancel show ?thesis
    using run_append [of qs "[ConfirmBooking b r]" svc] run_append [of qs "[CancelBooking b r]" svc]
    by simp
qed

text \<open>
  C4, as stated: a reserve request on a slot whose capacity is exhausted or whose hold
  is with another user enqueues the caller and answers Queued. It fails on the code:
  bob asks for the slot alice has just reserved, gets the answer alice got, and his
  queue position read afterwards is the empty string.
\<close>

theorem second_reserve_not_queued:
  "run [CreateBooking (''alice'', ''Slot 1''), CreateBooking (''bob'', ''Slot 1''),
        GetQueuePosition ''Slot 1'' (''bob'', ''Slot 1'')] initial =
     ([Text ''This action creates a new booking'', Text ''This action creates a new booking'',
       Text []], initial)"
  by (simp add: createBooking_def getQueuePosition_def)

text \<open>
  C4, amended: every reserve request, however many came before it and whatever slot
  and caller it names, is answered with the same fixed string and changes no state:
  nobody is enqueued, no Queued result is given, and no error is surfaced.
\<close>

theorem reserve_always_same_answer:
  "run (map CreateBooking rs) svc =
     (map (\<lambda>r. Text ''This action creates a new booking'') rs, svc)"
proof (induction rs)
  case Nil
  show ?case by simp
next
  case (Cons r rs)
  have "run (map CreateBooking (r # rs)) svc =
          (fst (handle (CreateBooking r) svc) # fst (run (map CreateBooking rs) svc), svc)"
    by (simp only: list.map run_Cons)
  with Cons.IH show ?case
    by (simp add: createBooking_def)
qed

text \<open>
  C5, as stated: a confirm call made when the time to live has elapsed returns Expired,
  not Confirmed. It fails on the code: alice reserves at second 0 and confirms at second
  100000, far beyond any hold, and the answer is the acknowledgement of a confirmation.
\<close>

theorem late_confirm_not_expired:
  "run [CreateBooking (''alice'', 0::nat), ConfirmBooking ''1'' (''alice'', 100000)] initial =
     ([Text ''This action creates a new booking'', Text ''This action confirms a booking''],
      initial)"
  by (simp add: createBooking_def confirmBooking_def)

text \<open>
  C5, amended: the answer of a confirm call does not depend on the time of the call,
  on the booking named or on what was requested before: it is always the fixed
  acknowledgement, and the call changes no state, so nothing is expired or released.
\<close>

theorem confirm_answer_ignores_time:
  "fst (handle (ConfirmBooking b r) (snd (run qs svc))) = Text ''This action confirms a booking''
   \<and> snd (handle (ConfirmBooking b r) (snd (run qs svc))) = svc
   \<and> fst (handle (ConfirmBooking b r) svc) = fst (handle (ConfirmBooking b' r') svc')"
proof -
  have "snd (run qs svc) = svc"
    by (rule run_keeps_service)
  then show ?thesis
    by (simp add: confirmBooking_def)
qed

end
